theory Spec2Isabelle
  imports Complex_Main
begin

section \<open>Numbers\<close>

text \<open>
  The simulator computes with JavaScript numbers. The finite ones are modelled as real
  numbers: rounding, overflow, underflow and the sign of zero are outside the model.
  A division the source guards (\<open>den === 0\<close>, \<open>dist < 1e-6\<close>,
  \<open>Math.abs(det) < 1e-9\<close>) is the division of the reals. A division whose divisor the
  source does not guard is written with \<open>js_div\<close>, which returns \<open>None\<close> where JavaScript
  produces a value that is not finite (\<open>0/0\<close> is \<open>NaN\<close>, \<open>a/0\<close> is an infinity).
\<close>

definition js_div :: "real \<Rightarrow> real \<Rightarrow> real option" where
  "js_div a b = (if b = 0 then None else Some (a / b))"

text \<open>
  Where the result depends on which value that is not finite arises (the noise term of
  \<open>calculateRSSI\<close>, the inverse law \<open>estimateDistanceFromRSSI\<close>), the model computes
  with all JavaScript numbers: a real, one of the two infinities, or \<open>NaN\<close>. The
  operations below are those of the language on these values.
\<close>

datatype jsnum = Num real | PosInf | NegInf | NaN

text \<open>\<open>a / b\<close> for finite \<open>a\<close> and \<open>b\<close>.\<close>

definition js_divide :: "real \<Rightarrow> real \<Rightarrow> jsnum" where
  "js_divide a b =
     (if b \<noteq> 0 then Num (a / b)
      else if a = 0 then NaN
      else if 0 < a then PosInf
      else NegInf)"

text \<open>\<open>Math.log\<close> of a finite number: \<open>Math.log(0)\<close> is \<open>-Infinity\<close>.\<close>

definition js_log :: "real \<Rightarrow> jsnum" where
  "js_log a = (if a < 0 then NaN else if a = 0 then NegInf else Num (ln a))"

fun js_sqrt :: "jsnum \<Rightarrow> jsnum" where
  "js_sqrt (Num a) = (if a < 0 then NaN else Num (sqrt a))"
| "js_sqrt PosInf = PosInf"
| "js_sqrt NegInf = NaN"
| "js_sqrt NaN = NaN"

text \<open>The product: an infinity times zero is \<open>NaN\<close>.\<close>

fun js_mul :: "jsnum \<Rightarrow> jsnum \<Rightarrow> jsnum" where
  "js_mul NaN b = NaN"
| "js_mul a NaN = NaN"
| "js_mul (Num a) (Num b) = Num (a * b)"
| "js_mul (Num a) PosInf = (if a = 0 then NaN else if 0 < a then PosInf else NegInf)"
| "js_mul (Num a) NegInf = (if a = 0 then NaN else if 0 < a then NegInf else PosInf)"
| "js_mul PosInf (Num b) = (if b = 0 then NaN else if 0 < b then PosInf else NegInf)"
| "js_mul NegInf (Num b) = (if b = 0 then NaN else if 0 < b then NegInf else PosInf)"
| "js_mul PosInf PosInf = PosInf"
| "js_mul PosInf NegInf = NegInf"
| "js_mul NegInf PosInf = NegInf"
| "js_mul NegInf NegInf = PosInf"

text \<open>The sum: the two infinities added are \<open>NaN\<close>.\<close>

fun js_add :: "jsnum \<Rightarrow> jsnum \<Rightarrow> jsnum" where
  "js_add NaN b = NaN"
| "js_add a NaN = NaN"
| "js_add (Num a) (Num b) = Num (a + b)"
| "js_add (Num a) PosInf = PosInf"
| "js_add (Num a) NegInf = NegInf"
| "js_add PosInf (Num b) = PosInf"
| "js_add NegInf (Num b) = NegInf"
| "js_add PosInf PosInf = PosInf"
| "js_add PosInf NegInf = NaN"
| "js_add NegInf PosInf = NaN"
| "js_add NegInf NegInf = NegInf"

text \<open>\<open>Math.max\<close> and \<open>Math.min\<close> of two numbers: \<open>NaN\<close> when one of them is \<open>NaN\<close>.\<close>

fun js_max :: "jsnum \<Rightarrow> jsnum \<Rightarrow> jsnum" where
  "js_max NaN b = NaN"
| "js_max a NaN = NaN"
| "js_max (Num a) (Num b) = Num (max a b)"
| "js_max PosInf b = PosInf"
| "js_max a PosInf = PosInf"
| "js_max NegInf b = b"
| "js_max a NegInf = a"

fun js_min :: "jsnum \<Rightarrow> jsnum \<Rightarrow> jsnum" where
  "js_min NaN b = NaN"
| "js_min a NaN = NaN"
| "js_min (Num a) (Num b) = Num (min a b)"
| "js_min NegInf b = NegInf"
| "js_min a NegInf = NegInf"
| "js_min PosInf b = b"
| "js_min a PosInf = a"

text \<open>\<open>Math.pow(10, e)\<close>.\<close>

fun js_pow10 :: "jsnum \<Rightarrow> jsnum" where
  "js_pow10 (Num e) = Num (10 powr e)"
| "js_pow10 PosInf = PosInf"
| "js_pow10 NegInf = Num 0"
| "js_pow10 NaN = NaN"

section \<open>Data model (types.ts, constants.ts)\<close>

record Vector2D =
  x :: real
  y :: real

datatype WallMaterial = drywall | concrete | brick | glass | metal | door_wood | door_metal

text \<open>The field \<open>end\<close> of the source is \<open>endp\<close> here, \<open>id\<close> is \<open>wall_id\<close> and \<open>radio_id\<close>.\<close>

record Wall =
  wall_id :: string
  start :: Vector2D
  endp :: Vector2D
  material :: WallMaterial
  attenuation :: real
  color :: nat

record Radio = Vector2D +
  radio_id :: string
  radius :: real
  label :: string

record Device = Vector2D +
  radius :: real

record Measurement =
  radio :: Radio
  trueDistance :: real
  rssi :: real
  estimatedDistance :: real

record Intersection =
  point :: Vector2D
  wall :: Wall

definition PIXELS_PER_METER :: real where
  "PIXELS_PER_METER = 40"

text \<open>
  The simulation parameters are React state captured by the closures of the core
  functions; the model passes them as a record.
\<close>

record Config =
  txPower :: real
  pathLossExponent :: real
  minRSSI :: real
  enableNoise :: bool
  noiseStdDev :: real
  enableWalls :: bool
  enableAngleEffect :: bool
  enableCumulativeEffect :: bool

section \<open>Utility functions\<close>

text \<open>
  \<open>clamp\<close> on finite numbers, and the same \<open>Math.min(Math.max(num, min), max)\<close> where
  \<open>num\<close> may be an infinity or \<open>NaN\<close>.
\<close>

definition clamp :: "real \<Rightarrow> real \<Rightarrow> real \<Rightarrow> real" where
  "clamp num lo hi = min (max num lo) hi"

definition clamp_js :: "jsnum \<Rightarrow> real \<Rightarrow> real \<Rightarrow> jsnum" where
  "clamp_js num lo hi = js_min (js_max num (Num lo)) (Num hi)"

definition distance :: "'a Vector2D_scheme \<Rightarrow> 'b Vector2D_scheme \<Rightarrow> real" where
  "distance p1 p2 = sqrt ((x p1 - x p2) ^ 2 + (y p1 - y p2) ^ 2)"

section \<open>Segment intersection (findWallIntersections)\<close>

text \<open>The three quantities \<open>den\<close>, \<open>t\<close> and \<open>u\<close> of the loop body, for the wall \<open>p3\<close>--\<open>p4\<close>.\<close>

definition den_of ::
  "'a Vector2D_scheme \<Rightarrow> 'b Vector2D_scheme \<Rightarrow> Vector2D \<Rightarrow> Vector2D \<Rightarrow> real" where
  "den_of p1 p2 p3 p4 = (x p1 - x p2) * (y p3 - y p4) - (y p1 - y p2) * (x p3 - x p4)"

definition t_of ::
  "'a Vector2D_scheme \<Rightarrow> 'b Vector2D_scheme \<Rightarrow> Vector2D \<Rightarrow> Vector2D \<Rightarrow> real" where
  "t_of p1 p2 p3 p4 =
     ((x p1 - x p3) * (y p3 - y p4) - (y p1 - y p3) * (x p3 - x p4)) / den_of p1 p2 p3 p4"

definition u_of ::
  "'a Vector2D_scheme \<Rightarrow> 'b Vector2D_scheme \<Rightarrow> Vector2D \<Rightarrow> Vector2D \<Rightarrow> real" where
  "u_of p1 p2 p3 p4 =
     - ((x p1 - x p2) * (y p1 - y p3) - (y p1 - y p2) * (x p1 - x p3)) / den_of p1 p2 p3 p4"

text \<open>
  The body of the \<open>for\<close> loop over the walls: \<open>None\<close> where the source continues without
  pushing, the pushed intersection otherwise.
\<close>

definition wallIntersection ::
  "'a Vector2D_scheme \<Rightarrow> 'b Vector2D_scheme \<Rightarrow> Wall \<Rightarrow> Intersection option" where
  "wallIntersection p1 p2 w =
     (let p3 = start w; p4 = endp w; den = den_of p1 p2 p3 p4 in
      if den = 0 then None
      else
        let t = t_of p1 p2 p3 p4; u = u_of p1 p2 p3 p4 in
        if t > 0 \<and> t < 1 \<and> u > 0 \<and> u < 1
        then Some \<lparr>point = \<lparr>x = x p1 + t * (x p2 - x p1), y = y p1 + t * (y p2 - y p1)\<rparr>,
                   wall = w\<rparr>
        else None)"

fun findWallIntersections ::
  "'a Vector2D_scheme \<Rightarrow> 'b Vector2D_scheme \<Rightarrow> Wall list \<Rightarrow> Intersection list" where
  "findWallIntersections p1 p2 [] = []"
| "findWallIntersections p1 p2 (w # currentWalls) =
     (case wallIntersection p1 p2 w of
        None \<Rightarrow> findWallIntersections p1 p2 currentWalls
      | Some i \<Rightarrow> i # findWallIntersections p1 p2 currentWalls)"

text \<open>
  The geometric reading of a crossing, in the words of the specification: the open
  segments \<open>p1\<close>--\<open>p2\<close> and \<open>p3\<close>--\<open>p4\<close> meet at parameters \<open>t\<close> and \<open>u\<close>.
\<close>

definition meets_at ::
  "'a Vector2D_scheme \<Rightarrow> 'b Vector2D_scheme \<Rightarrow> Vector2D \<Rightarrow> Vector2D \<Rightarrow> real \<Rightarrow> real \<Rightarrow> bool" where
  "meets_at p1 p2 p3 p4 t u \<longleftrightarrow>
     x p1 + t * (x p2 - x p1) = x p3 + u * (x p4 - x p3) \<and>
     y p1 + t * (y p2 - y p1) = y p3 + u * (y p4 - y p3)"

section \<open>Propagation model (calculateRSSI, estimateDistanceFromRSSI)\<close>

text \<open>
  The angle-effect block of the \<open>forEach\<close> callback. The source divides \<open>dot\<close> by the
  product of the two magnitudes without a guard; that product is zero only when one of
  the two vectors is the zero vector, and then \<open>dot\<close> is zero too, so \<open>None\<close> stands for
  the \<open>NaN\<close> of \<open>0/0\<close> (which \<open>Math.abs\<close> and the arithmetic after it leave \<open>NaN\<close>).
\<close>

definition angleFactor ::
  "'a Vector2D_scheme \<Rightarrow> 'b Vector2D_scheme \<Rightarrow> Wall \<Rightarrow> real option" where
  "angleFactor transmitter receiver w =
     (let wallVec = \<lparr>x = x (endp w) - x (start w), y = y (endp w) - y (start w)\<rparr>;
          wallNormal = \<lparr>x = - y wallVec, y = x wallVec\<rparr>;
          signalVec = \<lparr>x = x receiver - x transmitter, y = y receiver - y transmitter\<rparr>;
          dot = x signalVec * x wallNormal + y signalVec * y wallNormal;
          magSignal = sqrt ((x signalVec) ^ 2 + (y signalVec) ^ 2);
          magNormal = sqrt ((x wallNormal) ^ 2 + (y wallNormal) ^ 2)
      in case js_div dot (magSignal * magNormal) of
           None \<Rightarrow> None
         | Some cosTheta \<Rightarrow> Some (0.5 + 0.5 * \<bar>cosTheta\<bar>))"

text \<open>
  The \<open>forEach\<close> callback for the intersection with index \<open>i\<close>: the value it adds to
  \<open>totalAttenuation\<close>.
\<close>

definition wallLossAt ::
  "Config \<Rightarrow> 'a Vector2D_scheme \<Rightarrow> 'b Vector2D_scheme \<Rightarrow> nat \<Rightarrow> Intersection \<Rightarrow> real option" where
  "wallLossAt cfg transmitter receiver i intersection =
     (let wallLoss = attenuation (wall intersection);
          angled = (if enableAngleEffect cfg
                    then (case angleFactor transmitter receiver (wall intersection) of
                            None \<Rightarrow> None
                          | Some f \<Rightarrow> Some (wallLoss * f))
                    else Some wallLoss)
      in if enableCumulativeEffect cfg \<and> i > 0
         then (case angled of None \<Rightarrow> None | Some l \<Rightarrow> Some (l * (11 / 10) ^ i))
         else angled)"

text \<open>
  \<open>intersections.forEach\<close>: the index counts up from \<open>i\<close>, the accumulator is
  \<open>totalAttenuation\<close> (\<open>None\<close> once a \<open>NaN\<close> has been added).
\<close>

fun attenuationLoop ::
  "Config \<Rightarrow> 'a Vector2D_scheme \<Rightarrow> 'b Vector2D_scheme \<Rightarrow> nat \<Rightarrow> Intersection list \<Rightarrow>
   real option \<Rightarrow> real option" where
  "attenuationLoop cfg transmitter receiver i [] totalAttenuation = totalAttenuation"
| "attenuationLoop cfg transmitter receiver i (intersection # rest) totalAttenuation =
     attenuationLoop cfg transmitter receiver (Suc i) rest
       (case (totalAttenuation, wallLossAt cfg transmitter receiver i intersection) of
          (Some a, Some l) \<Rightarrow> Some (a + l)
        | _ \<Rightarrow> None)"

text \<open>
  The Box--Muller sample from the two draws \<open>u1\<close>, \<open>u2\<close> of \<open>Math.random()\<close>, which the
  model takes as arguments. \<open>Math.random()\<close> returns a number in \<open>[0, 1)\<close>; for
  \<open>u1 = 0\<close> the logarithm is \<open>-Infinity\<close> and the sample is an infinity, or \<open>NaN\<close>
  when the cosine is zero.
\<close>

definition boxMuller :: "real \<Rightarrow> real \<Rightarrow> jsnum" where
  "boxMuller u1 u2 =
     js_mul (js_sqrt (js_mul (Num (- 2)) (js_log u1))) (Num (cos (2 * pi * u2)))"

text \<open>
  \<open>calculateRSSI\<close>, with the captured state (configuration, walls) and the two random
  draws as arguments.
\<close>

definition calculateRSSI ::
  "Config \<Rightarrow> Wall list \<Rightarrow> real \<Rightarrow> real \<Rightarrow> real \<Rightarrow> Radio \<Rightarrow> Device \<Rightarrow> jsnum" where
  "calculateRSSI cfg walls u1 u2 distanceMeters transmitter receiver =
     (if distanceMeters \<le> 0 then Num (- 30)
      else
        let base = txPower cfg - 10 * pathLossExponent cfg * log 10 distanceMeters;
            walled = (if enableWalls cfg
                      then (case attenuationLoop cfg transmitter receiver 0
                                   (findWallIntersections transmitter receiver walls) (Some 0) of
                              None \<Rightarrow> NaN
                            | Some totalAttenuation \<Rightarrow> Num (base - totalAttenuation))
                      else Num base);
            noisy = (if enableNoise cfg
                     then js_add walled (js_mul (boxMuller u1 u2) (Num (noiseStdDev cfg)))
                     else walled)
        in clamp_js noisy (- 120) (- 30))"

text \<open>
  \<open>estimateDistanceFromRSSI\<close>: the division by \<open>10 * pathLossExponent\<close> is not guarded.
\<close>

definition estimateDistanceFromRSSI :: "Config \<Rightarrow> real \<Rightarrow> jsnum" where
  "estimateDistanceFromRSSI cfg r =
     js_pow10 (js_divide (txPower cfg - r) (10 * pathLossExponent cfg))"

section \<open>Trilateration (performTrilateration)\<close>

text \<open>
  The result of the solver: \<open>null\<close>, an object with real coordinates, or an object whose
  coordinates are not finite.
\<close>

datatype Estimate = Null | Point Vector2D | NonFinite

text \<open>
  The \<open>reduce\<close> that accumulates the weighted sum of the radio positions in \<open>acc\<close> and,
  as a side effect, the sum of the weights in \<open>totalWeight\<close>. The weight
  \<open>1 / m.estimatedDistance\<close> is not guarded.
\<close>

fun centroidReduce ::
  "Measurement list \<Rightarrow> Vector2D \<Rightarrow> real \<Rightarrow> (Vector2D \<times> real) option" where
  "centroidReduce [] acc totalWeight = Some (acc, totalWeight)"
| "centroidReduce (m # ms) acc totalWeight =
     (case js_div 1 (estimatedDistance m) of
        None \<Rightarrow> None
      | Some weight \<Rightarrow>
          centroidReduce ms
            \<lparr>x = x acc + x (radio m) * weight, y = y acc + y (radio m) * weight\<rparr>
            (totalWeight + weight))"

definition initialGuess :: "Measurement list \<Rightarrow> Vector2D option" where
  "initialGuess ms =
     (case centroidReduce ms \<lparr>x = 0, y = 0\<rparr> 0 of
        None \<Rightarrow> None
      | Some (acc, totalWeight) \<Rightarrow>
          (case (js_div (x acc) totalWeight, js_div (y acc) totalWeight) of
             (Some gx, Some gy) \<Rightarrow> Some \<lparr>x = gx, y = gy\<rparr>
           | _ \<Rightarrow> None))"

text \<open>
  The inner loop that fills \<open>J\<close> (rows as pairs) and \<open>r\<close>, skipping a measurement whose
  radio is closer than \<open>1e-6\<close> to \<open>pos\<close>.
\<close>

fun buildSystem :: "Measurement list \<Rightarrow> Vector2D \<Rightarrow> (real \<times> real) list \<times> real list" where
  "buildSystem [] pos = ([], [])"
| "buildSystem (m # ms) pos =
     (let radioPos = \<lparr>x = x (radio m), y = y (radio m)\<rparr>;
          dist = distance pos radioPos;
          rest = buildSystem ms pos
      in if dist < 1 / 10 ^ 6 then rest
         else (((x pos - x radioPos) / dist, (y pos - y radioPos) / dist) # fst rest,
               (dist - estimatedDistance m * PIXELS_PER_METER) # snd rest))"

text \<open>The entries of \<open>JtJ\<close>, its determinant, \<open>Jtr\<close> and the step \<open>delta\<close>.\<close>

definition JtJ00 :: "(real \<times> real) list \<Rightarrow> real" where
  "JtJ00 J = foldl (\<lambda>sum row. sum + fst row * fst row) 0 J"

definition JtJ01 :: "(real \<times> real) list \<Rightarrow> real" where
  "JtJ01 J = foldl (\<lambda>sum row. sum + fst row * snd row) 0 J"

definition JtJ10 :: "(real \<times> real) list \<Rightarrow> real" where
  "JtJ10 J = JtJ01 J"

definition JtJ11 :: "(real \<times> real) list \<Rightarrow> real" where
  "JtJ11 J = foldl (\<lambda>sum row. sum + snd row * snd row) 0 J"

definition det_of :: "(real \<times> real) list \<Rightarrow> real" where
  "det_of J = JtJ00 J * JtJ11 J - JtJ01 J * JtJ10 J"

definition Jtr0 :: "(real \<times> real) list \<Rightarrow> real list \<Rightarrow> real" where
  "Jtr0 J r = foldl (\<lambda>s p. s + fst (fst p) * snd p) 0 (zip J r)"

definition Jtr1 :: "(real \<times> real) list \<Rightarrow> real list \<Rightarrow> real" where
  "Jtr1 J r = foldl (\<lambda>s p. s + snd (fst p) * snd p) 0 (zip J r)"

definition delta_of :: "(real \<times> real) list \<Rightarrow> real list \<Rightarrow> real \<times> real" where
  "delta_of J r =
     (let invDet = 1 / det_of J;
          inv00 = invDet * JtJ11 J;
          inv01 = - invDet * JtJ01 J;
          inv10 = - invDet * JtJ10 J;
          inv11 = invDet * JtJ00 J
      in (- (inv00 * Jtr0 J r + inv01 * Jtr1 J r),
          - (inv10 * Jtr0 J r + inv11 * Jtr1 J r)))"

text \<open>
  One pass through the body of the \<open>for\<close> loop: \<open>Exit p\<close> where the source leaves the
  loop (\<open>return pos\<close> or \<open>break\<close>) with \<open>pos = p\<close>, \<open>Next p\<close> where it goes on with
  \<open>pos = p\<close>.
\<close>

datatype Step = Exit Vector2D | Next Vector2D

definition gnStep :: "Measurement list \<Rightarrow> Vector2D \<Rightarrow> Step" where
  "gnStep ms pos =
     (let J = fst (buildSystem ms pos); r = snd (buildSystem ms pos) in
      if length J < 2 then Exit pos
      else if \<bar>det_of J\<bar> < 1 / 10 ^ 9 then Exit pos
      else
        let delta = delta_of J r;
            pos' = \<lparr>x = x pos + fst delta, y = y pos + snd delta\<rparr>
        in if sqrt ((fst delta) ^ 2 + (snd delta) ^ 2) < 0.1 then Exit pos' else Next pos')"

function gnLoop :: "nat \<Rightarrow> Measurement list \<Rightarrow> Vector2D \<Rightarrow> Vector2D" where
  "gnLoop iter ms pos =
     (if iter < 50
      then (case gnStep ms pos of Exit p \<Rightarrow> p | Next p \<Rightarrow> gnLoop (iter + 1) ms p)
      else pos)"
  by pat_completeness auto
termination
  by (relation "measure (\<lambda>(iter, ms, pos). 50 - iter)") auto

declare gnLoop.simps [simp del]

text \<open>
  \<open>performTrilateration\<close>. Where the initial guess is not finite, every comparison of
  the loop is false on \<open>NaN\<close>: the source runs all 50 iterations and returns an object
  whose coordinates are \<open>NaN\<close>.
\<close>

definition performTrilateration :: "Measurement list \<Rightarrow> Estimate" where
  "performTrilateration activeMeasurements =
     (if length activeMeasurements < 3 then Null
      else (case initialGuess activeMeasurements of
              None \<Rightarrow> NonFinite
            | Some g \<Rightarrow> Point (gnLoop 0 activeMeasurements g)))"


section \<open>Quantities used to state the properties\<close>

text \<open>
  The value \<open>0.5 + 0.5 * |cos \<theta>|\<close> of the angle-effect block, as a real number, for
  vectors of non-zero length.
\<close>

definition angleMultiplier :: "'a Vector2D_scheme \<Rightarrow> 'b Vector2D_scheme \<Rightarrow> Wall \<Rightarrow> real" where
  "angleMultiplier transmitter receiver w =
     0.5 + 0.5 * \<bar>((x receiver - x transmitter) * (- (y (endp w) - y (start w))) +
                   (y receiver - y transmitter) * (x (endp w) - x (start w))) /
                  (sqrt ((x receiver - x transmitter) ^ 2 + (y receiver - y transmitter) ^ 2) *
                   sqrt ((- (y (endp w) - y (start w))) ^ 2 + (x (endp w) - x (start w)) ^ 2))\<bar>"

text \<open>The loss of a crossed wall after the angle effect, before the cumulative effect.\<close>

definition angledLoss ::
  "Config \<Rightarrow> 'a Vector2D_scheme \<Rightarrow> 'b Vector2D_scheme \<Rightarrow> Wall \<Rightarrow> real" where
  "angledLoss cfg transmitter receiver w =
     (if enableAngleEffect cfg then attenuation w * angleMultiplier transmitter receiver w
      else attenuation w)"

text \<open>The loss of the crossed wall with index \<open>i\<close> after both effects.\<close>

definition cumulativeLoss ::
  "Config \<Rightarrow> 'a Vector2D_scheme \<Rightarrow> 'b Vector2D_scheme \<Rightarrow> nat \<Rightarrow> Wall \<Rightarrow> real" where
  "cumulativeLoss cfg transmitter receiver i w =
     (if enableCumulativeEffect cfg \<and> i > 0
      then angledLoss cfg transmitter receiver w * (11 / 10) ^ i
      else angledLoss cfg transmitter receiver w)"

text \<open>The unclamped log-distance value \<open>txPower - 10 * n * log10 d\<close>.\<close>

definition baseRSSI :: "Config \<Rightarrow> real \<Rightarrow> real" where
  "baseRSSI cfg d = txPower cfg - 10 * pathLossExponent cfg * log 10 d"

text \<open>
  The quantities of one pass of the solver's loop at the position \<open>pos\<close>: the usable
  gradient rows, the step \<open>delta\<close>, its norm, and the position after the step.
\<close>

definition usableRows :: "Measurement list \<Rightarrow> Vector2D \<Rightarrow> (real \<times> real) list" where
  "usableRows ms pos = fst (buildSystem ms pos)"

definition stepFrom :: "Measurement list \<Rightarrow> Vector2D \<Rightarrow> real \<times> real" where
  "stepFrom ms pos = delta_of (fst (buildSystem ms pos)) (snd (buildSystem ms pos))"

definition stepNorm :: "Measurement list \<Rightarrow> Vector2D \<Rightarrow> real" where
  "stepNorm ms pos = sqrt ((fst (stepFrom ms pos)) ^ 2 + (snd (stepFrom ms pos)) ^ 2)"

definition moved :: "Measurement list \<Rightarrow> Vector2D \<Rightarrow> Vector2D" where
  "moved ms pos = \<lparr>x = x pos + fst (stepFrom ms pos), y = y pos + snd (stepFrom ms pos)\<rparr>"

section \<open>Example scenes\<close>

text \<open>The initial state of the application.\<close>

definition default_cfg :: Config where
  "default_cfg =
     \<lparr>txPower = - 59, pathLossExponent = 2.7, minRSSI = - 100, enableNoise = False,
      noiseStdDev = 5, enableWalls = True, enableAngleEffect = True,
      enableCumulativeEffect = True\<rparr>"

text \<open>The same without walls and noise.\<close>

definition free_space_cfg :: Config where
  "free_space_cfg = default_cfg\<lparr>enableWalls := False\<rparr>"

text \<open>The strongest transmitter and the smallest exponent of the sliders, without walls and noise.\<close>

definition strong_cfg :: Config where
  "strong_cfg = free_space_cfg\<lparr>txPower := - 30, pathLossExponent := 2\<rparr>"

text \<open>The default state with noise.\<close>

definition noisy_cfg :: Config where
  "noisy_cfg = default_cfg\<lparr>enableNoise := True\<rparr>"

text \<open>The default state with noise of standard deviation 0, the minimum of its slider.\<close>

definition zero_noise_cfg :: Config where
  "zero_noise_cfg = default_cfg\<lparr>enableNoise := True, noiseStdDev := 0\<rparr>"

definition origin_radio :: Radio where
  "origin_radio = \<lparr>x = 0, y = 0, radio_id = ''r1'', radius = 10, label = ''R1''\<rparr>"

text \<open>A device three metres east of the radio, and one at the radio's position.\<close>

definition device_east :: Device where
  "device_east = \<lparr>x = 120, y = 0, radius = 10\<rparr>"

definition device_on_radio :: Device where
  "device_on_radio = \<lparr>x = 0, y = 0, radius = 10\<rparr>"

definition concrete_wall :: "real \<Rightarrow> real \<Rightarrow> real \<Rightarrow> real \<Rightarrow> Wall" where
  "concrete_wall ax ay bx by =
     \<lparr>wall_id = ''w'', start = \<lparr>x = ax, y = ay\<rparr>, endp = \<lparr>x = bx, y = by\<rparr>,
      material = concrete, attenuation = 10, color = 8947848\<rparr>"

text \<open>
  Two walls across the path from \<open>origin_radio\<close> to \<open>device_east\<close>, with a wall
  parallel to the path between them in the list.
\<close>

definition wall_near :: Wall where
  "wall_near = concrete_wall 40 (- 40) 40 40"

definition wall_parallel :: Wall where
  "wall_parallel = concrete_wall 0 50 120 50"

definition wall_far :: Wall where
  "wall_far = concrete_wall 80 (- 40) 80 40"

definition three_walls :: "Wall list" where
  "three_walls = [wall_near, wall_parallel, wall_far]"

text \<open>A measurement of a radio at \<open>(bx, by)\<close> with estimated distance \<open>e\<close>.\<close>

definition beaconAt :: "real \<Rightarrow> real \<Rightarrow> real \<Rightarrow> Measurement" where
  "beaconAt bx by e =
     \<lparr>radio = \<lparr>x = bx, y = by, radio_id = ''r'', radius = 10, label = ''R''\<rparr>,
      trueDistance = e, rssi = - 70, estimatedDistance = e\<rparr>"

text \<open>Three radios at the corners of an equilateral triangle of side 100.\<close>

definition equilateral :: "real \<Rightarrow> Measurement list" where
  "equilateral e = [beaconAt 0 0 e, beaconAt 100 0 e, beaconAt 50 86.6 e]"

text \<open>A device a tenth of a metre and one ten metres east of the radio.\<close>

definition device_close :: Device where
  "device_close = \<lparr>x = 4, y = 0, radius = 10\<rparr>"

definition device_far :: Device where
  "device_far = \<lparr>x = 400, y = 0, radius = 10\<rparr>"

text \<open>The centroid of the triangle, and a list of only two measurements.\<close>

definition centroid_guess :: Vector2D where
  "centroid_guess = \<lparr>x = 50, y = 433 / 15\<rparr>"

definition two_beacons :: "Measurement list" where
  "two_beacons = [beaconAt 0 0 1, beaconAt 100 0 1]"


section \<open>Geometry and propagation: auxiliary facts\<close>

lemma den_solution:
  assumes "den_of p1 p2 p3 p4 \<noteq> 0"
  shows "meets_at p1 p2 p3 p4 (t_of p1 p2 p3 p4) (u_of p1 p2 p3 p4)"
  using assms unfolding meets_at_def t_of_def u_of_def den_of_def
  by (auto simp: field_simps)

lemma den_unique:
  assumes "den_of p1 p2 p3 p4 \<noteq> 0" and "meets_at p1 p2 p3 p4 t u"
  shows "t = t_of p1 p2 p3 p4 \<and> u = u_of p1 p2 p3 p4"
proof -
  let ?d = "den_of p1 p2 p3 p4"
  have e1: "x p1 - x p3 = u * (x p4 - x p3) - t * (x p2 - x p1)"
   and e2: "y p1 - y p3 = u * (y p4 - y p3) - t * (y p2 - y p1)"
    using assms(2) unfolding meets_at_def by (simp_all add: algebra_simps)
  have "t * ?d = (x p1 - x p3) * (y p3 - y p4) - (y p1 - y p3) * (x p3 - x p4)"
    unfolding e1 e2 den_of_def by (simp add: algebra_simps)
  moreover have "u * ?d = - ((x p1 - x p2) * (y p1 - y p3) - (y p1 - y p2) * (x p1 - x p3))"
    unfolding e1 e2 den_of_def by (simp add: algebra_simps)
  ultimately show ?thesis
    using assms(1) unfolding t_of_def u_of_def by (simp add: field_simps)
qed

lemma wallIntersection_Some_iff:
  "(\<exists>i. wallIntersection p1 p2 w = Some i) \<longleftrightarrow>
     den_of p1 p2 (start w) (endp w) \<noteq> 0 \<and>
     0 < t_of p1 p2 (start w) (endp w) \<and> t_of p1 p2 (start w) (endp w) < 1 \<and>
     0 < u_of p1 p2 (start w) (endp w) \<and> u_of p1 p2 (start w) (endp w) < 1"
  by (simp add: wallIntersection_def Let_def)

lemma wallIntersection_SomeD:
  assumes "wallIntersection p1 p2 w = Some i"
  shows "wall i = w" and "den_of p1 p2 (start w) (endp w) \<noteq> 0"
    and "point i = \<lparr>x = x p1 + t_of p1 p2 (start w) (endp w) * (x p2 - x p1),
                    y = y p1 + t_of p1 p2 (start w) (endp w) * (y p2 - y p1)\<rparr>"
  using assms by (auto simp: wallIntersection_def Let_def split: if_splits)

lemma findWallIntersections_walls:
  "map wall (findWallIntersections p1 p2 ws) =
     filter (\<lambda>w. wallIntersection p1 p2 w \<noteq> None) ws"
  by (induction ws) (auto split: option.splits dest: wallIntersection_SomeD(1))

lemma findWallIntersections_den:
  "i \<in> set (findWallIntersections p1 p2 ws) \<Longrightarrow>
     den_of p1 p2 (start (wall i)) (endp (wall i)) \<noteq> 0"
proof (induction ws)
  case Nil
  then show ?case by simp
next
  case (Cons w ws)
  then show ?case
    by (auto split: option.splits dest: wallIntersection_SomeD)
qed



lemma sqrt_sumsq_zero_iff: "sqrt (a ^ 2 + b ^ 2) = 0 \<longleftrightarrow> a = 0 \<and> b = (0::real)"
  by (simp add: sum_power2_eq_zero_iff)

lemma angleFactor_nonzero:
  assumes "x receiver \<noteq> x transmitter \<or> y receiver \<noteq> y transmitter"
      and "x (endp w) \<noteq> x (start w) \<or> y (endp w) \<noteq> y (start w)"
  shows "angleFactor transmitter receiver w = Some (angleMultiplier transmitter receiver w)"
  using assms
  by (auto simp: angleFactor_def js_div_def angleMultiplier_def Let_def sqrt_sumsq_zero_iff)

lemma den_nonzero_vectors:
  assumes "den_of p1 p2 p3 p4 \<noteq> 0"
  shows "(x p2 \<noteq> x p1 \<or> y p2 \<noteq> y p1) \<and> (x p4 \<noteq> x p3 \<or> y p4 \<noteq> y p3)"
  using assms by (auto simp: den_of_def)

lemma cauchy2: "\<bar>a * c + b * d\<bar> \<le> sqrt (a ^ 2 + b ^ 2) * sqrt (c ^ 2 + d ^ 2)" for a b c d :: real
proof -
  have "(a * c + b * d) ^ 2 \<le> (a ^ 2 + b ^ 2) * (c ^ 2 + d ^ 2)"
  proof -
    have "(a ^ 2 + b ^ 2) * (c ^ 2 + d ^ 2) - (a * c + b * d) ^ 2 = (a * d - b * c) ^ 2"
      by (simp add: power2_eq_square algebra_simps)
    moreover have "0 \<le> (a * d - b * c) ^ 2" by simp
    ultimately show ?thesis by linarith
  qed
  then have "sqrt ((a * c + b * d) ^ 2) \<le> sqrt ((a ^ 2 + b ^ 2) * (c ^ 2 + d ^ 2))"
    by (rule real_sqrt_le_mono)
  then show ?thesis by (simp add: real_sqrt_mult)
qed

lemma quot_le_one:
  fixes n m :: real
  assumes "\<bar>n\<bar> \<le> m"
  shows "\<bar>n / m\<bar> \<le> 1"
proof (cases "m = 0")
  case True
  then show ?thesis by simp
next
  case False
  with assms have "0 < m" by linarith
  with assms show ?thesis by (simp add: divide_le_eq_1)
qed

lemma head_on_quot:
  fixes c d k :: real
  assumes "c \<noteq> 0 \<or> d \<noteq> 0" and "k \<noteq> 0"
  shows "\<bar>(k * c * c + k * d * d) / (sqrt ((k * c) ^ 2 + (k * d) ^ 2) * sqrt (c ^ 2 + d ^ 2))\<bar> = 1"
proof -
  have n0: "0 < c ^ 2 + d ^ 2"
    using assms(1) by (simp add: sum_power2_gt_zero_iff)
  have "(k * c) ^ 2 + (k * d) ^ 2 = k ^ 2 * (c ^ 2 + d ^ 2)"
    by (simp add: power_mult_distrib distrib_left)
  then have s: "sqrt ((k * c) ^ 2 + (k * d) ^ 2) = \<bar>k\<bar> * sqrt (c ^ 2 + d ^ 2)"
    by (simp add: real_sqrt_mult)
  have e: "k * c * c + k * d * d = k * (c ^ 2 + d ^ 2)"
    by (simp add: power2_eq_square algebra_simps)
  define S where "S = c ^ 2 + d ^ 2"
  have S0: "0 < S" using n0 by (simp add: S_def)
  have m: "\<bar>k\<bar> * sqrt S * sqrt S = \<bar>k\<bar> * S"
    using S0 by simp
  have k0: "0 < \<bar>k\<bar> * S" using S0 assms(2) by simp
  have "\<bar>(k * S) / (\<bar>k\<bar> * S)\<bar> = (\<bar>k\<bar> * S) / (\<bar>k\<bar> * S)"
    using S0 by (simp add: abs_mult)
  also have "\<dots> = 1" using S0 assms(2) by simp
  finally have "\<bar>(k * S) / (\<bar>k\<bar> * sqrt S * sqrt S)\<bar> = 1"
    unfolding m .
  then have "\<bar>(k * (c ^ 2 + d ^ 2)) / (\<bar>k\<bar> * sqrt (c ^ 2 + d ^ 2) * sqrt (c ^ 2 + d ^ 2))\<bar> = 1"
    unfolding S_def .
  then show ?thesis unfolding s e .
qed


lemma angleMultiplier_bounds:
  "1 / 2 \<le> angleMultiplier t r w \<and> angleMultiplier t r w \<le> 1"
proof -
  let ?a = "x r - x t" and ?b = "y r - y t"
  let ?c = "- (y (endp w) - y (start w))" and ?d = "x (endp w) - x (start w)"
  let ?m = "sqrt (?a ^ 2 + ?b ^ 2) * sqrt (?c ^ 2 + ?d ^ 2)"
  have "\<bar>?a * ?c + ?b * ?d\<bar> \<le> ?m" by (rule cauchy2)
  then have "\<bar>(?a * ?c + ?b * ?d) / ?m\<bar> \<le> 1" by (rule quot_le_one)
  moreover have "0 \<le> \<bar>(?a * ?c + ?b * ?d) / ?m\<bar>" by simp
  ultimately show ?thesis unfolding angleMultiplier_def by linarith
qed

lemma angleMultiplier_head_on:
  assumes "x r - x t = k * (- (y (endp w) - y (start w)))"
      and "y r - y t = k * (x (endp w) - x (start w))"
      and "k \<noteq> 0"
      and "x (endp w) \<noteq> x (start w) \<or> y (endp w) \<noteq> y (start w)"
  shows "angleMultiplier t r w = 1"
proof -
  let ?c = "- (y (endp w) - y (start w))" and ?d = "x (endp w) - x (start w)"
  have "?c \<noteq> 0 \<or> ?d \<noteq> 0" using assms(4) by auto
  from head_on_quot [OF this assms(3)]
  have q: "\<bar>(k * ?c * ?c + k * ?d * ?d) /
            (sqrt ((k * ?c) ^ 2 + (k * ?d) ^ 2) * sqrt (?c ^ 2 + ?d ^ 2))\<bar> = 1" .
  have "angleMultiplier t r w =
          0.5 + 0.5 * \<bar>(k * ?c * ?c + k * ?d * ?d) /
            (sqrt ((k * ?c) ^ 2 + (k * ?d) ^ 2) * sqrt (?c ^ 2 + ?d ^ 2))\<bar>"
    unfolding angleMultiplier_def assms(1) assms(2) ..
  also have "\<dots> = 1" unfolding q by simp
  finally show ?thesis .
qed

lemma wallLossAt_crossed:
  assumes "den_of t r (start (wall it)) (endp (wall it)) \<noteq> 0"
  shows "wallLossAt cfg t r i it = Some (cumulativeLoss cfg t r i (wall it))"
proof -
  from den_nonzero_vectors [OF assms]
  have "angleFactor t r (wall it) = Some (angleMultiplier t r (wall it))"
    by (intro angleFactor_nonzero) auto
  then show ?thesis
    by (simp add: wallLossAt_def cumulativeLoss_def angledLoss_def Let_def)
qed

lemma attenuationLoop_sum:
  assumes "\<forall>it \<in> set its. den_of t r (start (wall it)) (endp (wall it)) \<noteq> 0"
  shows "attenuationLoop cfg t r i its (Some a) =
           Some (a + (\<Sum>k<length its. cumulativeLoss cfg t r (i + k) (wall (its ! k))))"
  using assms
proof (induction its arbitrary: i a)
  case Nil
  then show ?case by simp
next
  case (Cons it its)
  have "wallLossAt cfg t r i it = Some (cumulativeLoss cfg t r i (wall it))"
    using Cons.prems by (intro wallLossAt_crossed) simp
  moreover have "\<forall>it \<in> set its. den_of t r (start (wall it)) (endp (wall it)) \<noteq> 0"
    using Cons.prems by simp
  ultimately show ?case
    by (simp add: Cons.IH sum.lessThan_Suc_shift add.assoc del: sum.lessThan_Suc)
qed

lemma attenuationLoop_crossings:
  "attenuationLoop cfg t r 0 (findWallIntersections t r ws) (Some 0) =
     Some (\<Sum>k<length (findWallIntersections t r ws).
             cumulativeLoss cfg t r k (wall (findWallIntersections t r ws ! k)))"
  using attenuationLoop_sum [of "findWallIntersections t r ws" t r cfg 0 0]
  by (simp add: findWallIntersections_den)

lemma clamp_id: "- 120 \<le> v \<Longrightarrow> v \<le> - 30 \<Longrightarrow> clamp v (- 120) (- 30) = v"
  by (simp add: clamp_def)

lemma clamp_js_Num: "clamp_js (Num v) lo hi = Num (clamp v lo hi)"
  by (simp add: clamp_js_def clamp_def)

lemma clamp_js_cases:
  "clamp_js a (- 120) (- 30) = NaN \<or>
   (\<exists>v. clamp_js a (- 120) (- 30) = Num v \<and> - 120 \<le> v \<and> v \<le> - 30)"
  by (cases a) (simp_all add: clamp_js_def)

lemma boxMuller_positive_draw:
  assumes "0 < u1" and "u1 < 1"
  shows "boxMuller u1 u2 = Num (sqrt (- 2 * ln u1) * cos (2 * pi * u2))"
proof -
  from assms have "ln u1 < 0" by simp
  then have "\<not> - 2 * ln u1 < 0" by simp
  then show ?thesis using assms by (simp add: boxMuller_def js_log_def)
qed

lemma boxMuller_zero_draw: "boxMuller 0 0 = PosInf"
  by (simp add: boxMuller_def js_log_def)

lemma calculateRSSI_positive_draw:
  assumes "0 < u1" and "u1 < 1"
  shows "\<exists>v. calculateRSSI cfg walls u1 u2 distanceMeters transmitter receiver = Num v \<and>
             - 120 \<le> v \<and> v \<le> - 30"
  by (auto simp: calculateRSSI_def Let_def attenuationLoop_crossings clamp_js_Num clamp_def
        boxMuller_positive_draw [OF assms])

lemma calculateRSSI_cases:
  "calculateRSSI cfg walls u1 u2 distanceMeters transmitter receiver = NaN \<or>
   (\<exists>v. calculateRSSI cfg walls u1 u2 distanceMeters transmitter receiver = Num v \<and>
        - 120 \<le> v \<and> v \<le> - 30)"
proof (cases "distanceMeters \<le> 0")
  case True
  then show ?thesis by (simp add: calculateRSSI_def)
next
  case False
  then show ?thesis
    using clamp_js_cases by (simp add: calculateRSSI_def Let_def)
qed

section \<open>Trilateration: auxiliary facts\<close>

lemma gnStep_cases:
  "gnStep ms q =
     (if length (usableRows ms q) < 2 then Exit q
      else if \<bar>det_of (usableRows ms q)\<bar> < 1 / 10 ^ 9 then Exit q
      else if stepNorm ms q < 0.1 then Exit (moved ms q) else Next (moved ms q))"
  by (simp add: gnStep_def usableRows_def stepNorm_def stepFrom_def moved_def Let_def)



lemma centroidReduce_positive:
  assumes "\<forall>m \<in> set ms. 0 < estimatedDistance m" and "0 \<le> tw"
  shows "\<exists>acc' tw'. centroidReduce ms acc tw = Some (acc', tw') \<and> tw \<le> tw' \<and>
           (ms \<noteq> [] \<longrightarrow> 0 < tw')"
  using assms
proof (induction ms arbitrary: acc tw)
  case Nil
  then show ?case by simp
next
  case (Cons m ms)
  let ?w = "1 / estimatedDistance m"
  let ?acc = "\<lparr>x = x acc + x (radio m) * ?w, y = y acc + y (radio m) * ?w\<rparr>"
  from Cons.prems have e: "0 < estimatedDistance m" by simp
  then have w: "0 < ?w" by simp
  have "\<forall>m \<in> set ms. 0 < estimatedDistance m" using Cons.prems by simp
  moreover have "0 \<le> tw + ?w" using w Cons.prems(2) by linarith
  ultimately obtain acc' tw' where r: "centroidReduce ms ?acc (tw + ?w) = Some (acc', tw')"
      "tw + ?w \<le> tw'"
    using Cons.IH [of "tw + ?w" ?acc] by blast
  from e r(1) have "centroidReduce (m # ms) acc tw = Some (acc', tw')"
    by (simp add: js_div_def)
  moreover from r(2) w Cons.prems(2) have "tw \<le> tw'" "0 < tw'" by linarith+
  ultimately show ?case by blast
qed

lemma initialGuess_positive:
  assumes "\<forall>m \<in> set ms. 0 < estimatedDistance m" and "ms \<noteq> []"
  shows "\<exists>g. initialGuess ms = Some g"
proof -
  from centroidReduce_positive [OF assms(1), of 0 "\<lparr>x = 0, y = 0\<rparr>"] assms(2)
  obtain acc' tw' where "centroidReduce ms \<lparr>x = 0, y = 0\<rparr> 0 = Some (acc', tw')" "0 < tw'"
    by auto
  then show ?thesis by (simp add: initialGuess_def js_div_def)
qed


section \<open>Facts about the example scenes\<close>

lemmas scene_defs = origin_radio_def device_east_def device_on_radio_def concrete_wall_def
  wall_near_def wall_parallel_def wall_far_def three_walls_def device_close_def device_far_def

lemmas cfg_defs = default_cfg_def free_space_cfg_def strong_cfg_def noisy_cfg_def

lemma three_walls_crossed:
  "findWallIntersections origin_radio device_east three_walls =
     [\<lparr>point = \<lparr>x = 40, y = 0\<rparr>, wall = wall_near\<rparr>,
      \<lparr>point = \<lparr>x = 80, y = 0\<rparr>, wall = wall_far\<rparr>]"
  by (simp add: three_walls_def wallIntersection_def den_of_def t_of_def u_of_def
        origin_radio_def device_east_def wall_near_def wall_parallel_def wall_far_def
        concrete_wall_def)

lemma angledLoss_near: "angledLoss default_cfg origin_radio device_east wall_near = 10"
  by (simp add: angledLoss_def angleMultiplier_def default_cfg_def origin_radio_def
        device_east_def wall_near_def concrete_wall_def)

lemma angledLoss_far: "angledLoss default_cfg origin_radio device_east wall_far = 10"
  by (simp add: angledLoss_def angleMultiplier_def default_cfg_def origin_radio_def
        device_east_def wall_far_def concrete_wall_def)

lemma log10_5_lower: "65 / 93 < log 10 (5::real)"
proof -
  have "(10 powr (65 / 93)) ^ 93 = (10::real) powr 65"
    by (simp add: powr_power)
  also have "\<dots> = 10 ^ 65" by (simp add: powr_numeral del: numeral_powr_numeral_real)
  also have "\<dots> < (5::real) ^ 93" by simp
  finally have "(10 powr (65 / 93)) ^ 93 < (5::real) ^ 93" .
  then have "10 powr (65 / 93) < (5::real)"
    by (rule power_less_imp_less_base) simp
  moreover have "65 / 93 < log 10 (5::real) \<longleftrightarrow> 10 powr (65 / 93) < (5::real)"
    by (rule less_log_iff) simp_all
  ultimately show ?thesis by blast
qed

lemma log10_5_upper: "log 10 (5::real) < 137 / 196"
proof -
  have "(10 powr (137 / 196)) ^ 196 = (10::real) powr 137"
    by (simp add: powr_power)
  also have "\<dots> = 10 ^ 137" by (simp add: powr_numeral del: numeral_powr_numeral_real)
  finally have e: "(10 powr (137 / 196)) ^ 196 = (10::real) ^ 137" .
  have "(5::real) ^ 196 < 10 ^ 137" by simp
  then have "(5::real) ^ 196 < (10 powr (137 / 196)) ^ 196" unfolding e .
  then have "(5::real) < 10 powr (137 / 196)"
    by (rule power_less_imp_less_base) simp
  moreover have "log 10 (5::real) < 137 / 196 \<longleftrightarrow> (5::real) < 10 powr (137 / 196)"
    by (rule log_less_iff) simp_all
  ultimately show ?thesis by blast
qed


lemma initialGuess_equilateral:
  assumes "0 < e"
  shows "initialGuess (equilateral e) = Some centroid_guess"
  using assms
  by (simp add: initialGuess_def equilateral_def beaconAt_def js_div_def centroid_guess_def
        field_simps)

lemma sqrt_749989_bounds: "866 < sqrt 749989 \<and> sqrt 749989 < 43301 / 50"
proof -
  have "sqrt (866 ^ 2) < sqrt 749989"
    by (rule real_sqrt_less_mono) simp
  moreover have "sqrt 749989 < sqrt ((43301 / 50) ^ 2)"
    by (rule real_sqrt_less_mono) (simp add: power2_eq_square)
  ultimately show ?thesis by simp
qed

lemma sqrt_749989_over_225: "sqrt (749989 / 225) = sqrt 749989 / 15"
proof -
  have "sqrt (749989 / 225) = sqrt 749989 / sqrt 225" by (rule real_sqrt_divide)
  moreover have "sqrt 225 = 15" by simp
  ultimately show ?thesis by simp
qed

lemma dist_corner_0: "distance centroid_guess \<lparr>x = 0, y = 0\<rparr> = sqrt 749989 / 15"
proof -
  have "(50 - 0::real) ^ 2 + (433 / 15 - 0) ^ 2 = 749989 / 225"
    by (simp add: power2_eq_square)
  then have "distance centroid_guess \<lparr>x = 0, y = 0\<rparr> = sqrt (749989 / 225)"
    by (simp only: distance_def centroid_guess_def Vector2D.simps)
  then show ?thesis by (simp only: sqrt_749989_over_225)
qed

lemma dist_corner_1: "distance centroid_guess \<lparr>x = 100, y = 0\<rparr> = sqrt 749989 / 15"
proof -
  have "(50 - 100::real) ^ 2 + (433 / 15 - 0) ^ 2 = 749989 / 225"
    by (simp add: power2_eq_square)
  then have "distance centroid_guess \<lparr>x = 100, y = 0\<rparr> = sqrt (749989 / 225)"
    by (simp only: distance_def centroid_guess_def Vector2D.simps)
  then show ?thesis by (simp only: sqrt_749989_over_225)
qed

lemma dist_corner_2: "distance centroid_guess \<lparr>x = 50, y = 86.6\<rparr> = 866 / 15"
proof -
  have "(50 - 50::real) ^ 2 + (433 / 15 - 86.6) ^ 2 = (866 / 15) ^ 2"
    by (simp add: power2_eq_square)
  then have "distance centroid_guess \<lparr>x = 50, y = 86.6\<rparr> = sqrt ((866 / 15) ^ 2)"
    by (simp only: distance_def centroid_guess_def Vector2D.simps)
  also have "\<dots> = \<bar>866 / 15\<bar>" by (rule real_sqrt_abs)
  finally show ?thesis by simp
qed

lemma dist_corner_2': "distance centroid_guess \<lparr>x = 50, y = 433 / 5\<rparr> = 866 / 15"
  using dist_corner_2 by simp

lemma centroid_guess_sel: "x centroid_guess = 50" "y centroid_guess = 433 / 15"
  by (simp_all add: centroid_guess_def)

lemma corner_not_close:
  "\<not> sqrt 749989 / 15 < 1 / 10 ^ 6" "\<not> (866 / 15 :: real) < 1 / 10 ^ 6"
  "\<not> 200000 * sqrt 749989 < 3"
  using sqrt_749989_bounds by simp_all

lemma sqrt_749989_nonzero: "sqrt 749989 \<noteq> 0"
  using sqrt_749989_bounds by simp

lemma buildSystem_equilateral:
  "buildSystem (equilateral e) centroid_guess =
     ([(750 / sqrt 749989, 433 / sqrt 749989),
       (- (750 / sqrt 749989), 433 / sqrt 749989),
       (0, - 1)],
      [sqrt 749989 / 15 - e * 40, sqrt 749989 / 15 - e * 40, 866 / 15 - e * 40])"
  by (simp add: equilateral_def beaconAt_def Let_def dist_corner_0 dist_corner_1 dist_corner_2'
        corner_not_close centroid_guess_sel PIXELS_PER_METER_def del: distance_def)

lemma normal_matrix:
  fixes s :: real
  assumes s2: "s * s = 749989"
  shows "JtJ00 [(750 / s, 433 / s), (- (750 / s), 433 / s), (0, - 1)] = 1125000 / 749989"
    and "JtJ01 [(750 / s, 433 / s), (- (750 / s), 433 / s), (0, - 1)] = 0"
    and "JtJ11 [(750 / s, 433 / s), (- (750 / s), 433 / s), (0, - 1)] = 1124967 / 749989"
  by (simp_all add: JtJ00_def JtJ01_def JtJ11_def s2)

lemma normal_vector:
  fixes s E :: real
  assumes s0: "s \<noteq> 0"
  shows "Jtr0 [(750 / s, 433 / s), (- (750 / s), 433 / s), (0, - 1)]
           [s / 15 - E, s / 15 - E, 866 / 15 - E] = 0"
    and "Jtr1 [(750 / s, 433 / s), (- (750 / s), 433 / s), (0, - 1)]
           [s / 15 - E, s / 15 - E, 866 / 15 - E] = E * (1 - 866 / s)"
proof -
  show "Jtr0 [(750 / s, 433 / s), (- (750 / s), 433 / s), (0, - 1)]
           [s / 15 - E, s / 15 - E, 866 / 15 - E] = 0"
    by (simp add: Jtr0_def)
  show "Jtr1 [(750 / s, 433 / s), (- (750 / s), 433 / s), (0, - 1)]
           [s / 15 - E, s / 15 - E, 866 / 15 - E] = E * (1 - 866 / s)"
    using s0 by (simp add: Jtr1_def field_simps)
qed

lemma sqrt_749989_square: "sqrt 749989 * sqrt 749989 = 749989"
  by simp

lemma usableRows_equilateral:
  "usableRows (equilateral e) centroid_guess =
     [(750 / sqrt 749989, 433 / sqrt 749989),
      (- (750 / sqrt 749989), 433 / sqrt 749989),
      (0, - 1)]"
  by (simp only: usableRows_def buildSystem_equilateral fst_conv)

lemma det_equilateral:
  "det_of (usableRows (equilateral e) centroid_guess) =
     (1125000 / 749989) * (1124967 / 749989)"
  unfolding usableRows_equilateral det_of_def JtJ10_def
  by (simp add: normal_matrix [OF sqrt_749989_square])

lemma stepFrom_equilateral:
  "stepFrom (equilateral e) centroid_guess =
     (0, - ((749989 / 1124967) * ((e * 40) * (1 - 866 / sqrt 749989))))"
proof -
  note n = normal_matrix [OF sqrt_749989_square]
    normal_vector [OF sqrt_749989_nonzero, of "e * 40"]
  have d: "det_of [(750 / sqrt 749989, 433 / sqrt 749989),
                   (- (750 / sqrt 749989), 433 / sqrt 749989), (0, - 1)] =
           (1125000 / 749989) * (1124967 / 749989)"
    using det_equilateral [of e] unfolding usableRows_equilateral .
  show ?thesis
    unfolding stepFrom_def buildSystem_equilateral fst_conv snd_conv delta_of_def Let_def
      JtJ10_def n d
    by simp
qed

lemma step_bounds:
  assumes "0 < e" and "e \<le> 60"
  shows "fst (stepFrom (equilateral e) centroid_guess) = 0"
    and "- (1 / 25) < snd (stepFrom (equilateral e) centroid_guess)"
    and "snd (stepFrom (equilateral e) centroid_guess) < 0"
proof -
  let ?s = "sqrt 749989"
  from sqrt_749989_bounds have b: "866 < ?s" "?s < 43301 / 50" by simp_all
  then have s0: "0 < ?s" by linarith
  have lo: "0 < 1 - 866 / ?s" using b(1) s0 by (simp add: field_simps)
  have "43300 / 43301 < 866 / ?s"
    using b(2) s0 by (simp add: field_simps)
  then have hi: "1 - 866 / ?s < 1 / 43301" by linarith
  have e40: "0 < e * 40" "e * 40 \<le> 2400" using assms by simp_all
  have p: "0 < (e * 40) * (1 - 866 / ?s)" using e40(1) lo by simp
  have "(e * 40) * (1 - 866 / ?s) \<le> 2400 * (1 - 866 / ?s)"
  proof (rule mult_right_mono)
    show "e * 40 \<le> 2400" by (rule e40(2))
    show "0 \<le> 1 - 866 / ?s" using lo by linarith
  qed
  also have "\<dots> < 2400 * (1 / 43301)" using hi by simp
  finally have q: "(e * 40) * (1 - 866 / ?s) < 2400 / 43301" by simp
  show "fst (stepFrom (equilateral e) centroid_guess) = 0"
    by (simp add: stepFrom_equilateral)
  show "snd (stepFrom (equilateral e) centroid_guess) < 0"
    using p by (simp add: stepFrom_equilateral)
  have "(749989 / 1124967) * ((e * 40) * (1 - 866 / ?s)) < (749989 / 1124967) * (2400 / 43301)"
    using q by simp
  also have "\<dots> < 1 / 25" by simp
  finally show "- (1 / 25) < snd (stepFrom (equilateral e) centroid_guess)"
    by (simp add: stepFrom_equilateral)
qed

lemma stepNorm_equilateral:
  assumes "0 < e" and "e \<le> 60"
  shows "stepNorm (equilateral e) centroid_guess < 0.1"
proof -
  note b = step_bounds [OF assms]
  have "stepNorm (equilateral e) centroid_guess = \<bar>snd (stepFrom (equilateral e) centroid_guess)\<bar>"
    by (simp add: stepNorm_def b(1))
  with b(2) b(3) show ?thesis by simp
qed

lemma gnStep_equilateral:
  assumes "0 < e" and "e \<le> 60"
  shows "gnStep (equilateral e) centroid_guess = Exit (moved (equilateral e) centroid_guess)"
proof -
  have "length (usableRows (equilateral e) centroid_guess) = 3"
    by (simp add: usableRows_equilateral)
  moreover have "\<not> \<bar>det_of (usableRows (equilateral e) centroid_guess)\<bar> < 1 / 10 ^ 9"
    by (simp add: det_equilateral)
  ultimately show ?thesis
    using stepNorm_equilateral [OF assms] by (simp add: gnStep_cases)
qed

lemma length_equilateral: "length (equilateral e) = 3"
  by (simp add: equilateral_def)

lemma equilateral_result:
  assumes "0 < e" and "e \<le> 60"
  shows "performTrilateration (equilateral e) = Point (moved (equilateral e) centroid_guess)"
    and "x (moved (equilateral e) centroid_guess) = 50"
    and "433 / 15 - 1 / 25 < y (moved (equilateral e) centroid_guess)"
    and "y (moved (equilateral e) centroid_guess) < 433 / 15"
proof -
  have "gnLoop 0 (equilateral e) centroid_guess = moved (equilateral e) centroid_guess"
    by (simp add: gnLoop.simps [of 0] gnStep_equilateral [OF assms])
  then show "performTrilateration (equilateral e) = Point (moved (equilateral e) centroid_guess)"
    using assms(1)
    by (simp add: performTrilateration_def initialGuess_equilateral length_equilateral)
  note b = step_bounds [OF assms]
  show "x (moved (equilateral e) centroid_guess) = 50"
    by (simp add: moved_def b(1) centroid_guess_sel)
  show "433 / 15 - 1 / 25 < y (moved (equilateral e) centroid_guess)"
    using b(2) by (simp add: moved_def centroid_guess_sel)
  show "y (moved (equilateral e) centroid_guess) < 433 / 15"
    using b(3) by (simp add: moved_def centroid_guess_sel)
qed

section \<open>Claims\<close>

text \<open>
  C1, as stated, fails where the clamp is active. With \<open>txPower = -30\<close> and
  \<open>pathLossExponent = 2\<close>, walls and noise disabled, a distance of 0.1 metres gives the
  unclamped value -10, which is clamped to -30, and the estimated distance of -30 is
  1 metre, ten times the distance.
\<close>

theorem roundtrip_clamped_counterexample:
  "\<not> enableWalls strong_cfg \<and> \<not> enableNoise strong_cfg \<and>
   calculateRSSI strong_cfg [] (1 / 2) (1 / 4) (1 / 10) origin_radio device_close = Num (- 30) \<and>
   estimateDistanceFromRSSI strong_cfg (- 30) = Num 1"
  by (simp add: calculateRSSI_def estimateDistanceFromRSSI_def js_divide_def clamp_js_Num
        clamp_def cfg_defs log_divide)

text \<open>
  C1, as amended. With wall attenuation and noise disabled, an empty wall list, a
  positive distance \<open>d\<close>, a non-zero path-loss exponent and the unclamped value
  \<open>txPower - 10 * pathLossExponent * log10 d\<close> within \<open>[-120, -30]\<close>,
  \<open>estimateDistanceFromRSSI\<close> applied to the result of \<open>calculateRSSI\<close> returns \<open>d\<close>.
\<close>

theorem roundtrip_within_range:
  assumes "\<not> enableWalls cfg" and "\<not> enableNoise cfg" and "0 < d"
      and "pathLossExponent cfg \<noteq> 0"
      and "- 120 \<le> baseRSSI cfg d" and "baseRSSI cfg d \<le> - 30"
  shows "\<exists>v. calculateRSSI cfg [] u1 u2 d transmitter receiver = Num v \<and>
             estimateDistanceFromRSSI cfg v = Num d"
proof -
  have r: "calculateRSSI cfg [] u1 u2 d transmitter receiver = Num (baseRSSI cfg d)"
    using assms by (simp add: calculateRSSI_def baseRSSI_def clamp_js_Num clamp_id)
  have "(txPower cfg - baseRSSI cfg d) / (10 * pathLossExponent cfg) = log 10 d"
    using assms(4) by (simp add: baseRSSI_def)
  moreover have "10 powr log 10 d = d"
    using assms(3) by (simp add: powr_log_cancel)
  ultimately have "estimateDistanceFromRSSI cfg (baseRSSI cfg d) = Num d"
    using assms(4) by (simp add: estimateDistanceFromRSSI_def js_divide_def)
  with r show ?thesis by blast
qed

text \<open>
  The default configuration without walls, at 10 metres: the unclamped value is -86.
\<close>

theorem roundtrip_within_range_witness:
  "\<not> enableWalls free_space_cfg \<and> \<not> enableNoise free_space_cfg \<and> (0::real) < 10 \<and>
   pathLossExponent free_space_cfg \<noteq> 0 \<and>
   - 120 \<le> baseRSSI free_space_cfg 10 \<and> baseRSSI free_space_cfg 10 \<le> - 30 \<and>
   (\<exists>v. calculateRSSI free_space_cfg [] (1 / 2) (1 / 4) 10 origin_radio device_far = Num v \<and>
        estimateDistanceFromRSSI free_space_cfg v = Num 10)"
proof -
  have h: "\<not> enableWalls free_space_cfg" "\<not> enableNoise free_space_cfg" "(0::real) < 10"
    "pathLossExponent free_space_cfg \<noteq> 0"
    "- 120 \<le> baseRSSI free_space_cfg 10" "baseRSSI free_space_cfg 10 \<le> - 30"
    by (simp_all add: cfg_defs baseRSSI_def)
  from roundtrip_within_range [OF h, of "1 / 2" "1 / 4" origin_radio device_far] h
  show ?thesis by (intro conjI)
qed

text \<open>
  C2. For the three measurements with radios at \<open>(0,0)\<close>, \<open>(100,0)\<close> and \<open>(50,86.6)\<close>,
  each with the same estimated distance, the initial guess is the centroid
  \<open>(50, 433/15)\<close>, the first step is shorter than the convergence threshold 0.1, and
  the solver returns the position after that step, which is within 0.1 of
  \<open>(50, 28.9)\<close> in both coordinates. This holds both when the field
  \<open>estimatedDistance\<close> is 57.7 and when it is \<open>57.7 / PIXELS_PER_METER\<close>, so that the
  distance the solver compares with, \<open>estimatedDistance * PIXELS_PER_METER\<close>, is 57.7 in
  the unit of the coordinates.
\<close>

theorem equilateral_converges:
  "initialGuess (equilateral 57.7) = Some centroid_guess \<and>
   stepNorm (equilateral 57.7) centroid_guess < 0.1 \<and>
   performTrilateration (equilateral 57.7) = Point (moved (equilateral 57.7) centroid_guess) \<and>
   \<bar>x (moved (equilateral 57.7) centroid_guess) - 50\<bar> < 0.1 \<and>
   \<bar>y (moved (equilateral 57.7) centroid_guess) - 28.9\<bar> < 0.1 \<and>
   initialGuess (equilateral (57.7 / PIXELS_PER_METER)) = Some centroid_guess \<and>
   stepNorm (equilateral (57.7 / PIXELS_PER_METER)) centroid_guess < 0.1 \<and>
   performTrilateration (equilateral (57.7 / PIXELS_PER_METER)) =
     Point (moved (equilateral (57.7 / PIXELS_PER_METER)) centroid_guess) \<and>
   \<bar>x (moved (equilateral (57.7 / PIXELS_PER_METER)) centroid_guess) - 50\<bar> < 0.1 \<and>
   \<bar>y (moved (equilateral (57.7 / PIXELS_PER_METER)) centroid_guess) - 28.9\<bar> < 0.1"
proof -
  have a: "(0::real) < 57.7" "(57.7::real) \<le> 60" by simp_all
  have b: "(0::real) < 57.7 / PIXELS_PER_METER" "57.7 / PIXELS_PER_METER \<le> 60"
    by (simp_all add: PIXELS_PER_METER_def)
  note ra = equilateral_result [OF a] and rb = equilateral_result [OF b]
  have ya: "\<bar>y (moved (equilateral 57.7) centroid_guess) - 28.9\<bar> < 0.1"
    using ra(3) ra(4) by simp
  have yb: "\<bar>y (moved (equilateral (57.7 / PIXELS_PER_METER)) centroid_guess) - 28.9\<bar> < 0.1"
    using rb(3) rb(4) by simp
  have xa: "\<bar>x (moved (equilateral 57.7) centroid_guess) - 50\<bar> < 0.1"
    unfolding ra(2) by simp
  have xb: "\<bar>x (moved (equilateral (57.7 / PIXELS_PER_METER)) centroid_guess) - 50\<bar> < 0.1"
    unfolding rb(2) by simp
  from initialGuess_equilateral [OF a(1)] stepNorm_equilateral [OF a] ra(1) xa ya
    initialGuess_equilateral [OF b(1)] stepNorm_equilateral [OF b] rb(1) xb yb
  show ?thesis by (intro conjI)
qed



text \<open>
  C4. The result of \<open>calculateRSSI\<close> is meant to lie in the closed interval from -120
  to -30. It does not when noise is enabled with standard deviation 0 and the first
  draw of \<open>Math.random()\<close> is 0: the logarithm is \<open>-Infinity\<close>, the sample is
  \<open>Infinity\<close>, its product with 0 is \<open>NaN\<close>, and \<open>Math.max\<close> and \<open>Math.min\<close> hand
  \<open>NaN\<close> on. Here this is evaluated for the default state with that noise, the three
  walls and a device three metres from the radio.
\<close>

theorem calculateRSSI_zero_draw:
  "enableNoise zero_noise_cfg \<and> noiseStdDev zero_noise_cfg = 0 \<and>
   boxMuller 0 0 = PosInf \<and>
   calculateRSSI zero_noise_cfg three_walls 0 0 3 origin_radio device_east = NaN"
  by (simp add: calculateRSSI_def Let_def attenuationLoop_crossings boxMuller_zero_draw
        clamp_js_def zero_noise_cfg_def default_cfg_def)

text \<open>
  C5. With wall attenuation and noise disabled and a positive distance,
  \<open>calculateRSSI\<close> returns the clamp to \<open>[-120, -30]\<close> of
  \<open>txPower - 10 * pathLossExponent * log10 distanceMeters\<close>; with \<open>txPower = -59\<close>,
  \<open>pathLossExponent = 2.7\<close> and a distance of 5 metres the result is within 0.01 of
  -77.87.
\<close>

theorem log_distance_law:
  assumes "\<not> enableWalls cfg" and "\<not> enableNoise cfg" and "0 < distanceMeters"
  shows "calculateRSSI cfg walls u1 u2 distanceMeters transmitter receiver =
           Num (clamp (txPower cfg - 10 * pathLossExponent cfg * log 10 distanceMeters)
                   (- 120) (- 30)) \<and>
         (txPower cfg = - 59 \<and> pathLossExponent cfg = 2.7 \<and> distanceMeters = 5 \<longrightarrow>
            (\<exists>v. calculateRSSI cfg walls u1 u2 distanceMeters transmitter receiver = Num v \<and>
                 \<bar>v - (- 77.87)\<bar> < 0.01))"
proof -
  have g: "calculateRSSI cfg walls u1 u2 distanceMeters transmitter receiver =
           Num (clamp (txPower cfg - 10 * pathLossExponent cfg * log 10 distanceMeters)
                   (- 120) (- 30))"
    using assms by (simp add: calculateRSSI_def clamp_js_Num)
  have c: "\<bar>clamp (- 59 - 10 * 2.7 * log 10 5) (- 120) (- 30) - (- 77.87)\<bar> < (0.01::real)"
    using log10_5_lower log10_5_upper by (simp add: clamp_def)
  show ?thesis
  proof (intro conjI impI)
    show "calculateRSSI cfg walls u1 u2 distanceMeters transmitter receiver =
           Num (clamp (txPower cfg - 10 * pathLossExponent cfg * log 10 distanceMeters)
                   (- 120) (- 30))"
      by (rule g)
  next
    assume a: "txPower cfg = - 59 \<and> pathLossExponent cfg = 2.7 \<and> distanceMeters = 5"
    have "calculateRSSI cfg walls u1 u2 distanceMeters transmitter receiver =
            Num (clamp (- 59 - 10 * 2.7 * log 10 5) (- 120) (- 30))"
      using g a by simp
    with c show "\<exists>v. calculateRSSI cfg walls u1 u2 distanceMeters transmitter receiver = Num v \<and>
                 \<bar>v - (- 77.87)\<bar> < 0.01"
      by blast
  qed
qed

text \<open>
  The default configuration without walls, at 5 metres.
\<close>

theorem log_distance_law_witness:
  "\<not> enableWalls free_space_cfg \<and> \<not> enableNoise free_space_cfg \<and> (0::real) < 5 \<and>
   txPower free_space_cfg = - 59 \<and> pathLossExponent free_space_cfg = 2.7 \<and>
   calculateRSSI free_space_cfg three_walls (1 / 2) (1 / 4) 5 origin_radio device_east =
     Num (clamp (- 59 - 10 * 2.7 * log 10 5) (- 120) (- 30)) \<and>
   (\<exists>v. calculateRSSI free_space_cfg three_walls (1 / 2) (1 / 4) 5 origin_radio device_east = Num v \<and>
        \<bar>v - (- 77.87)\<bar> < 0.01)"
proof -
  have h: "\<not> enableWalls free_space_cfg" "\<not> enableNoise free_space_cfg" "(0::real) < 5"
    by (simp_all add: cfg_defs)
  have p: "txPower free_space_cfg = - 59 \<and> pathLossExponent free_space_cfg = 2.7 \<and> (5::real) = 5"
    by (simp add: cfg_defs)
  note l = log_distance_law [OF h, of three_walls "1 / 2" "1 / 4" origin_radio device_east]
  note l2 = l [THEN conjunct2, THEN mp, OF p]
  from l p have "calculateRSSI free_space_cfg three_walls (1 / 2) (1 / 4) 5 origin_radio device_east =
     Num (clamp (- 59 - 10 * 2.7 * log 10 5) (- 120) (- 30))"
    by simp
  with h p l2 show ?thesis by (intro conjI) simp_all
qed

text \<open>
  C6. For every path \<open>p1\<close>--\<open>p2\<close> and every wall, the loop body reports no
  intersection when \<open>den\<close> is zero. When \<open>den\<close> is not zero, \<open>t\<close> and \<open>u\<close> are the
  one pair of parameters at which the two lines meet, and a crossing is reported
  exactly when both lie strictly between 0 and 1.
\<close>

theorem intersection_test:
  "(den_of p1 p2 (start w) (endp w) = 0 \<longrightarrow> wallIntersection p1 p2 w = None) \<and>
   (den_of p1 p2 (start w) (endp w) \<noteq> 0 \<longrightarrow>
      meets_at p1 p2 (start w) (endp w)
        (t_of p1 p2 (start w) (endp w)) (u_of p1 p2 (start w) (endp w)) \<and>
      (\<forall>t u. meets_at p1 p2 (start w) (endp w) t u \<longrightarrow>
         t = t_of p1 p2 (start w) (endp w) \<and> u = u_of p1 p2 (start w) (endp w)) \<and>
      ((\<exists>i. wallIntersection p1 p2 w = Some i) \<longleftrightarrow>
         0 < t_of p1 p2 (start w) (endp w) \<and> t_of p1 p2 (start w) (endp w) < 1 \<and>
         0 < u_of p1 p2 (start w) (endp w) \<and> u_of p1 p2 (start w) (endp w) < 1))"
proof (intro conjI impI allI)
  assume "den_of p1 p2 (start w) (endp w) = 0"
  then show "wallIntersection p1 p2 w = None"
    by (simp add: wallIntersection_def)
next
  assume d: "den_of p1 p2 (start w) (endp w) \<noteq> 0"
  show "meets_at p1 p2 (start w) (endp w)
        (t_of p1 p2 (start w) (endp w)) (u_of p1 p2 (start w) (endp w))"
    by (rule den_solution [OF d])
  show "(\<exists>i. wallIntersection p1 p2 w = Some i) \<longleftrightarrow>
         0 < t_of p1 p2 (start w) (endp w) \<and> t_of p1 p2 (start w) (endp w) < 1 \<and>
         0 < u_of p1 p2 (start w) (endp w) \<and> u_of p1 p2 (start w) (endp w) < 1"
    using d by (simp add: wallIntersection_Some_iff)
  fix t u assume "meets_at p1 p2 (start w) (endp w) t u"
  from den_unique [OF d this]
  show "t = t_of p1 p2 (start w) (endp w)" and "u = u_of p1 p2 (start w) (endp w)"
    by simp_all
qed

text \<open>
  The path from the radio to the device three metres east of it: the wall parallel to
  it gives \<open>den = 0\<close> and no intersection, the wall across it is met at \<open>t = 1/3\<close>,
  \<open>u = 1/2\<close> and reported.
\<close>

theorem intersection_test_witness:
  "den_of origin_radio device_east (start wall_parallel) (endp wall_parallel) = 0 \<and>
   wallIntersection origin_radio device_east wall_parallel = None \<and>
   den_of origin_radio device_east (start wall_near) (endp wall_near) \<noteq> 0 \<and>
   meets_at origin_radio device_east (start wall_near) (endp wall_near) (1 / 3) (1 / 2) \<and>
   t_of origin_radio device_east (start wall_near) (endp wall_near) = 1 / 3 \<and>
   u_of origin_radio device_east (start wall_near) (endp wall_near) = 1 / 2 \<and>
   (\<exists>i. wallIntersection origin_radio device_east wall_near = Some i)"
proof -
  have p: "den_of origin_radio device_east (start wall_parallel) (endp wall_parallel) = 0"
    by (simp add: den_of_def origin_radio_def device_east_def wall_parallel_def concrete_wall_def)
  have n: "den_of origin_radio device_east (start wall_near) (endp wall_near) \<noteq> 0"
    by (simp add: den_of_def origin_radio_def device_east_def wall_near_def concrete_wall_def)
  have m: "meets_at origin_radio device_east (start wall_near) (endp wall_near) (1 / 3) (1 / 2)"
    by (simp add: meets_at_def origin_radio_def device_east_def wall_near_def concrete_wall_def)
  note a = intersection_test [of origin_radio device_east wall_parallel]
  note b = intersection_test [of origin_radio device_east wall_near]
  note none = a [THEN conjunct1, THEN mp, OF p]
  note b2 = b [THEN conjunct2, THEN mp, OF n]
  note uniq = b2 [THEN conjunct2, THEN conjunct1, THEN spec, THEN spec, THEN mp, OF m]
  note iff = b2 [THEN conjunct2, THEN conjunct2]
  from uniq have t: "t_of origin_radio device_east (start wall_near) (endp wall_near) = 1 / 3"
    and u: "u_of origin_radio device_east (start wall_near) (endp wall_near) = 1 / 2"
    by simp_all
  have ex: "\<exists>i. wallIntersection origin_radio device_east wall_near = Some i"
    unfolding iff t u by simp
  from p none n m t u ex show ?thesis by (intro conjI)
qed

text \<open>
  C7. For a signal vector and a wall vector that are both non-zero, the angle-effect
  block yields a multiplier between 0.5 and 1, and the multiplier is 1 when the signal
  vector is a multiple of the wall normal (head-on incidence).
\<close>

theorem angle_factor_bounds:
  assumes "x receiver \<noteq> x transmitter \<or> y receiver \<noteq> y transmitter"
      and "x (endp w) \<noteq> x (start w) \<or> y (endp w) \<noteq> y (start w)"
  shows "\<exists>f. angleFactor transmitter receiver w = Some f \<and> 1 / 2 \<le> f \<and> f \<le> 1 \<and>
           ((\<exists>k. k \<noteq> 0 \<and>
                x receiver - x transmitter = k * (- (y (endp w) - y (start w))) \<and>
                y receiver - y transmitter = k * (x (endp w) - x (start w))) \<longrightarrow> f = 1)"
proof -
  have "angleFactor transmitter receiver w = Some (angleMultiplier transmitter receiver w)"
    using assms by (rule angleFactor_nonzero)
  moreover have "(\<exists>k. k \<noteq> 0 \<and>
                x receiver - x transmitter = k * (- (y (endp w) - y (start w))) \<and>
                y receiver - y transmitter = k * (x (endp w) - x (start w))) \<longrightarrow>
              angleMultiplier transmitter receiver w = 1"
    using assms(2) by (blast intro: angleMultiplier_head_on)
  ultimately show ?thesis
    using angleMultiplier_bounds [of transmitter receiver w] by blast
qed

text \<open>
  The path from the radio to the device east of it meets \<open>wall_near\<close> head-on: the signal
  vector is \<open>-3/2\<close> times the wall normal, and the multiplier is 1.
\<close>

theorem angle_factor_bounds_witness:
  "x device_east \<noteq> x origin_radio \<and>
   y (endp wall_near) \<noteq> y (start wall_near) \<and>
   x device_east - x origin_radio = (- 3 / 2) * (- (y (endp wall_near) - y (start wall_near))) \<and>
   y device_east - y origin_radio = (- 3 / 2) * (x (endp wall_near) - x (start wall_near)) \<and>
   angleFactor origin_radio device_east wall_near = Some 1"
proof -
  have s: "x device_east \<noteq> x origin_radio"
    by (simp add: scene_defs)
  have v: "y (endp wall_near) \<noteq> y (start wall_near)"
    by (simp add: scene_defs)
  have k1: "x device_east - x origin_radio = (- 3 / 2) * (- (y (endp wall_near) - y (start wall_near)))"
    by (simp add: scene_defs)
  have k2: "y device_east - y origin_radio = (- 3 / 2) * (x (endp wall_near) - x (start wall_near))"
    by (simp add: scene_defs)
  have k: "\<exists>k::real. k \<noteq> 0 \<and>
      x device_east - x origin_radio = k * (- (y (endp wall_near) - y (start wall_near))) \<and>
      y device_east - y origin_radio = k * (x (endp wall_near) - x (start wall_near))"
    using k1 k2 by (intro exI [of _ "- 3 / 2"]) simp
  from angle_factor_bounds [OF disjI1 [OF s] disjI2 [OF v]] k
  have "angleFactor origin_radio device_east wall_near = Some 1" by blast
  with s v k1 k2 show ?thesis by (intro conjI)
qed

text \<open>
  C8. With wall attenuation and the cumulative effect enabled, the crossed walls are
  the walls of the list that the path crosses, in the order of the list; the crossed
  wall with index \<open>i\<close> contributes its loss after the angle effect, multiplied by
  \<open>1.1 ^ i\<close> when \<open>i > 0\<close> and as it is when \<open>i = 0\<close>; the total attenuation is the sum
  of these contributions and, without noise, the result is the clamp of the base value
  minus that sum.
\<close>

theorem cumulative_effect:
  assumes "enableWalls cfg" and "enableCumulativeEffect cfg"
  shows "map wall (findWallIntersections transmitter receiver walls) =
           filter (\<lambda>w. wallIntersection transmitter receiver w \<noteq> None) walls \<and>
         (\<forall>i < length (findWallIntersections transmitter receiver walls).
            wallLossAt cfg transmitter receiver i
                (findWallIntersections transmitter receiver walls ! i) =
              Some (if i = 0
                    then angledLoss cfg transmitter receiver
                           (wall (findWallIntersections transmitter receiver walls ! i))
                    else angledLoss cfg transmitter receiver
                           (wall (findWallIntersections transmitter receiver walls ! i)) *
                         (11 / 10) ^ i)) \<and>
         attenuationLoop cfg transmitter receiver 0
             (findWallIntersections transmitter receiver walls) (Some 0) =
           Some (\<Sum>i < length (findWallIntersections transmitter receiver walls).
                   angledLoss cfg transmitter receiver
                     (wall (findWallIntersections transmitter receiver walls ! i)) *
                   (11 / 10) ^ i) \<and>
         (0 < distanceMeters \<and> \<not> enableNoise cfg \<longrightarrow>
            calculateRSSI cfg walls u1 u2 distanceMeters transmitter receiver =
              Num (clamp (baseRSSI cfg distanceMeters -
                      (\<Sum>i < length (findWallIntersections transmitter receiver walls).
                         angledLoss cfg transmitter receiver
                           (wall (findWallIntersections transmitter receiver walls ! i)) *
                         (11 / 10) ^ i))
                    (- 120) (- 30)))"
proof -
  let ?c = "findWallIntersections transmitter receiver walls"
  have c: "cumulativeLoss cfg transmitter receiver i w =
           angledLoss cfg transmitter receiver w * (11 / 10) ^ i" for i w
    using assms(2) by (simp add: cumulativeLoss_def)
  have order: "map wall ?c = filter (\<lambda>w. wallIntersection transmitter receiver w \<noteq> None) walls"
    by (rule findWallIntersections_walls)
  have each: "wallLossAt cfg transmitter receiver i (?c ! i) =
      Some (if i = 0 then angledLoss cfg transmitter receiver (wall (?c ! i))
            else angledLoss cfg transmitter receiver (wall (?c ! i)) * (11 / 10) ^ i)"
    if "i < length ?c" for i
  proof -
    from that have "?c ! i \<in> set ?c" by simp
    then have "den_of transmitter receiver (start (wall (?c ! i))) (endp (wall (?c ! i))) \<noteq> 0"
      by (rule findWallIntersections_den)
    then show ?thesis
      by (simp add: wallLossAt_crossed c)
  qed
  have total: "attenuationLoop cfg transmitter receiver 0 ?c (Some 0) =
      Some (\<Sum>i < length ?c. angledLoss cfg transmitter receiver (wall (?c ! i)) * (11 / 10) ^ i)"
    by (simp add: attenuationLoop_crossings c)
  have final: "calculateRSSI cfg walls u1 u2 distanceMeters transmitter receiver =
      Num (clamp (baseRSSI cfg distanceMeters -
              (\<Sum>i < length ?c. angledLoss cfg transmitter receiver (wall (?c ! i)) * (11 / 10) ^ i))
            (- 120) (- 30))"
    if "0 < distanceMeters \<and> \<not> enableNoise cfg"
    using that assms(1) by (simp add: calculateRSSI_def total baseRSSI_def clamp_js_Num)
  from order each total final show ?thesis by blast
qed

text \<open>
  The default configuration, the path from the radio to the device east of it and the
  three walls: the first and the third wall are crossed, head-on; the first contributes
  10, the second 11, the total is 21.
\<close>

theorem cumulative_effect_witness:
  "enableWalls default_cfg \<and> enableCumulativeEffect default_cfg \<and>
   \<not> enableNoise default_cfg \<and>
   map wall (findWallIntersections origin_radio device_east three_walls) = [wall_near, wall_far] \<and>
   wallLossAt default_cfg origin_radio device_east 0
     (findWallIntersections origin_radio device_east three_walls ! 0) = Some 10 \<and>
   wallLossAt default_cfg origin_radio device_east 1
     (findWallIntersections origin_radio device_east three_walls ! 1) = Some 11 \<and>
   attenuationLoop default_cfg origin_radio device_east 0
     (findWallIntersections origin_radio device_east three_walls) (Some 0) = Some 21 \<and>
   calculateRSSI default_cfg three_walls (1 / 2) (1 / 4) 3 origin_radio device_east =
     Num (clamp (baseRSSI default_cfg 3 - 21) (- 120) (- 30))"
proof -
  have h: "enableWalls default_cfg" "enableCumulativeEffect default_cfg"
    by (simp_all add: default_cfg_def)
  have n: "(0::real) < 3 \<and> \<not> enableNoise default_cfg"
    by (simp add: default_cfg_def)
  note c = cumulative_effect [OF h, of origin_radio device_east three_walls 3 "1 / 2" "1 / 4"]
  have len: "length (findWallIntersections origin_radio device_east three_walls) = 2"
    by (simp add: three_walls_crossed)
  have w: "wall (findWallIntersections origin_radio device_east three_walls ! 0) = wall_near"
    "wall (findWallIntersections origin_radio device_east three_walls ! Suc 0) = wall_far"
    by (simp_all add: three_walls_crossed)
  have s: "(\<Sum>i < length (findWallIntersections origin_radio device_east three_walls).
             angledLoss default_cfg origin_radio device_east
               (wall (findWallIntersections origin_radio device_east three_walls ! i)) *
             (11 / 10) ^ i) = 21"
    unfolding len by (simp add: lessThan_Suc numeral_2_eq_2 w angledLoss_near angledLoss_far)
  from c have "map wall (findWallIntersections origin_radio device_east three_walls) =
      [wall_near, wall_far]"
    by (simp add: three_walls_crossed)
  moreover from c len have "wallLossAt default_cfg origin_radio device_east 0
     (findWallIntersections origin_radio device_east three_walls ! 0) = Some 10"
    by (simp add: w angledLoss_near)
  moreover from c len have "wallLossAt default_cfg origin_radio device_east 1
     (findWallIntersections origin_radio device_east three_walls ! 1) = Some 11"
    by (simp add: w angledLoss_far)
  moreover from c have "attenuationLoop default_cfg origin_radio device_east 0
     (findWallIntersections origin_radio device_east three_walls) (Some 0) = Some 21"
    unfolding s by blast
  moreover from c n have "calculateRSSI default_cfg three_walls (1 / 2) (1 / 4) 3 origin_radio device_east =
     Num (clamp (baseRSSI default_cfg 3 - 21) (- 120) (- 30))"
    unfolding s by blast
  ultimately show ?thesis using h n by (intro conjI) simp_all
qed

text \<open>
  C9, as stated, fails for three measurements with estimated distance 0: the weights
  \<open>1 / m.estimatedDistance\<close> are infinite, the initial guess is \<open>NaN\<close> in both
  coordinates, and the object returned has no real coordinates.
\<close>

theorem zero_distance_counterexample:
  "3 \<le> length (equilateral 0) \<and> performTrilateration (equilateral 0) = NonFinite"
  by (simp add: performTrilateration_def initialGuess_def equilateral_def beaconAt_def
        js_div_def)

text \<open>
  C9, as amended. For every list of fewer than 3 measurements \<open>performTrilateration\<close>
  returns \<open>null\<close>; for every list of at least 3 measurements it returns an object, not
  \<open>null\<close>, and the object is a point with real coordinates when every estimated
  distance is positive.
\<close>

theorem trilateration_needs_three:
  "(length ms < 3 \<longrightarrow> performTrilateration ms = Null) \<and>
   (3 \<le> length ms \<longrightarrow> performTrilateration ms \<noteq> Null \<and>
      ((\<forall>m \<in> set ms. 0 < estimatedDistance m) \<longrightarrow> (\<exists>p. performTrilateration ms = Point p)))"
proof (intro conjI impI)
  assume "length ms < 3"
  then show "performTrilateration ms = Null" by (simp add: performTrilateration_def)
next
  assume "3 \<le> length ms"
  then show "performTrilateration ms \<noteq> Null"
    by (simp add: performTrilateration_def split: option.split)
next
  assume l: "3 \<le> length ms" and p: "\<forall>m \<in> set ms. 0 < estimatedDistance m"
  from l have "ms \<noteq> []" by auto
  from initialGuess_positive [OF p this] obtain g where "initialGuess ms = Some g" ..
  with l show "\<exists>p. performTrilateration ms = Point p"
    by (simp add: performTrilateration_def)
qed

text \<open>
  Two measurements give \<open>null\<close>, the three measurements of the equilateral triangle a
  point.
\<close>

theorem trilateration_needs_three_witness:
  "length two_beacons < 3 \<and> performTrilateration two_beacons = Null \<and>
   3 \<le> length (equilateral 57.7) \<and>
   list_all (\<lambda>m. 0 < estimatedDistance m) (equilateral 57.7) \<and>
   performTrilateration (equilateral 57.7) \<noteq> Null \<and>
   (\<exists>p. performTrilateration (equilateral 57.7) = Point p)"
proof -
  have a: "length two_beacons < 3" by (simp add: two_beacons_def)
  have b: "3 \<le> length (equilateral 57.7)" by (simp add: equilateral_def)
  have c: "\<forall>m \<in> set (equilateral 57.7). 0 < estimatedDistance m"
    by (simp add: equilateral_def beaconAt_def)
  note n = trilateration_needs_three [of two_beacons, THEN conjunct1, THEN mp, OF a]
  note m = trilateration_needs_three [of "equilateral 57.7", THEN conjunct2, THEN mp, OF b]
  note m1 = m [THEN conjunct1]
  note m2 = m [THEN conjunct2, THEN mp, OF c]
  from c have c': "list_all (\<lambda>m. 0 < estimatedDistance m) (equilateral 57.7)"
    by (simp add: list_all_iff)
  from a n b c' m1 m2 show ?thesis by (intro conjI)
qed




end
